theory Spec2Isabelle
  imports Complex_Main
begin

section \<open>The Bayesian t-test of \<open>bayesian_statistics.ipynb\<close>\<close>

text \<open>
  The notebook defines one function, \<open>bayes_ttest(groups=None, N=40, show=False)\<close>.
  It pools two samples, describes a model with five priors and two observed nodes
  to the PyMC library, lets PyMC sample, reduces the five traces, prints three
  numbers and, when \<open>show\<close> is set, plots densities. PyMC, the plotting libraries and
  \<open>gen_data\<close> are not defined in the notebook; they are parameters of the embedding.

  Floats are embedded as real numbers, which says what formula every line computes.
  Where NumPy answers with \<open>nan\<close> or \<open>inf\<close> (the mean of an empty array, a division
  by zero, the logarithm of a number that is not positive) the embedding answers
  \<open>None\<close>, so that HOL's \<open>x / 0 = 0\<close> never stands for a float the code does not
  compute. Where a property depends on the rounding of doubles, the operations are
  given a second time with the rounding (the names ending in \<open>64\<close>).
\<close>

subsection \<open>NumPy arithmetic\<close>

type_synonym npfloat = "real option"

text \<open>\<open>a.mean()\<close>: the arithmetic mean, \<open>nan\<close> on an empty array.\<close>

definition np_mean :: "real list \<Rightarrow> npfloat" where
  "np_mean xs = (if xs = [] then None else Some (sum_list xs / real (length xs)))"

text \<open>\<open>a.var()\<close>: the mean squared deviation from the mean (NumPy's default, no
  Bessel correction), \<open>nan\<close> on an empty array.\<close>

definition np_var :: "real list \<Rightarrow> npfloat" where
  "np_var xs =
     (case np_mean xs of
        None \<Rightarrow> None
      | Some m \<Rightarrow> Some (sum_list (map (\<lambda>x. (x - m)\<^sup>2) xs) / real (length xs)))"

text \<open>\<open>x / y\<close> on NumPy floats: a division by zero gives \<open>inf\<close> or \<open>nan\<close> with a
  warning, and a \<open>nan\<close> operand gives \<open>nan\<close>.\<close>

definition np_truediv :: "npfloat \<Rightarrow> npfloat \<Rightarrow> npfloat" where
  "np_truediv a b =
     (case a of
        None \<Rightarrow> None
      | Some x \<Rightarrow>
          (case b of None \<Rightarrow> None | Some y \<Rightarrow> if y = 0 then None else Some (x / y)))"

text \<open>\<open>np.log\<close>: \<open>-inf\<close> at zero and \<open>nan\<close> below it.\<close>

definition np_log :: "real \<Rightarrow> npfloat" where
  "np_log x = (if 0 < x then Some (ln x) else None)"

text \<open>The mean of an array that may hold \<open>nan\<close> or \<open>inf\<close> entries is itself not
  finite as soon as one entry is not.\<close>

definition np_mean_opt :: "npfloat list \<Rightarrow> npfloat" where
  "np_mean_opt xs = Option.bind (those xs) np_mean"

subsection \<open>The model handed to PyMC\<close>

text \<open>
  A node is one call of a PyMC constructor with the arguments of the source. A
  parent is named by the label of the node the Python variable is bound to. The
  precision of an observed node is the expression \<open>1.0/sig\<close> over its scale node, kept
  here as the name of that scale node.
\<close>

datatype node =
    Normal string npfloat npfloat
  | Uniform string npfloat npfloat
  | Exponential string real
  | NoncentralT string string string string "real list" bool

fun label :: "node \<Rightarrow> string" where
  "label (Normal l _ _) = l"
| "label (Uniform l _ _) = l"
| "label (Exponential l _) = l"
| "label (NoncentralT l _ _ _ _ _) = l"

fun observed :: "node \<Rightarrow> bool" where
  "observed (NoncentralT _ _ _ _ _ ob) = ob"
| "observed _ = False"

text \<open>\<open>tau=1.0/pooled.var()/N\<close>, with \<open>N\<close> the second argument of \<open>bayes_ttest\<close>.\<close>

definition prior_tau :: "real list \<Rightarrow> int \<Rightarrow> npfloat" where
  "prior_tau pooled N =
     np_truediv (np_truediv (Some 1) (np_var pooled)) (Some (real_of_int N))"

text \<open>Lines 45 to 60: the pooled data, the five priors, the two observed nodes and
  the list given to \<open>pm.Model\<close>, in the order of the source. Dividing or multiplying
  \<open>nan\<close> by the literal 1000 gives \<open>nan\<close>.\<close>

definition build_model :: "real list \<Rightarrow> real list \<Rightarrow> int \<Rightarrow> node list" where
  "build_model group1 group2 N =
     (let pooled = group1 @ group2;
          mu1 = Normal ''mu_1'' (np_mean pooled) (prior_tau pooled N);
          mu2 = Normal ''mu_2'' (np_mean pooled) (prior_tau pooled N);
          sig1 = Uniform ''sigma_1'' (map_option (\<lambda>v. v / 1000) (np_var pooled))
                   (map_option (\<lambda>v. v * 1000) (np_var pooled));
          sig2 = Uniform ''sigma_2'' (map_option (\<lambda>v. v / 1000) (np_var pooled))
                   (map_option (\<lambda>v. v * 1000) (np_var pooled));
          v = Exponential ''nu'' (1 / 29);
          t1 = NoncentralT ''t_1'' ''mu_1'' ''sigma_1'' ''nu'' group1 True;
          t2 = NoncentralT ''t_1'' ''mu_2'' ''sigma_2'' ''nu'' group2 True
      in [t1, mu1, sig1, t2, mu2, sig2, v])"

subsection \<open>Traces and what is derived from them\<close>

text \<open>
  PyMC tallies every latent variable at the same kept iterations, so the five traces
  have one entry per kept draw: the sampler's answer is a list of draws.
\<close>

record draw =
  mu_1 :: real
  mu_2 :: real
  sigma_1 :: real
  sigma_2 :: real
  nu :: real

text \<open>\<open>mus1 - mus2\<close>, elementwise.\<close>

definition diff_mus :: "real list \<Rightarrow> real list \<Rightarrow> real list" where
  "diff_mus mus1 mus2 = map2 (-) mus1 mus2"

definition diff_sigmas :: "real list \<Rightarrow> real list \<Rightarrow> real list" where
  "diff_sigmas sigmas1 sigmas2 = map2 (-) sigmas1 sigmas2"

definition normality :: "real list \<Rightarrow> npfloat list" where
  "normality nus = map np_log nus"

text \<open>\<open>np.sqrt((sigmas1**2+sigmas2**2)/2.)\<close>, one array operation after the other.\<close>

definition effect_divisor :: "real list \<Rightarrow> real list \<Rightarrow> real list" where
  "effect_divisor sigmas1 sigmas2 =
     map sqrt (map (\<lambda>s. s / 2)
       (map2 (+) (map (\<lambda>s. s\<^sup>2) sigmas1) (map (\<lambda>s. s\<^sup>2) sigmas2)))"

text \<open>\<open>(mus1-mus2)/np.sqrt(...)\<close>, elementwise.\<close>

definition effect_size ::
  "real list \<Rightarrow> real list \<Rightarrow> real list \<Rightarrow> real list \<Rightarrow> npfloat list" where
  "effect_size mus1 mus2 sigmas1 sigmas2 =
     map2 (\<lambda>d s. np_truediv (Some d) (Some s)) (map2 (-) mus1 mus2)
       (effect_divisor sigmas1 sigmas2)"

subsection \<open>Float64 rounding\<close>

text \<open>
  The code computes in IEEE 754 double precision. Two properties of the code depend
  on the rounding itself, not on which formula is computed: whether the pooled mean
  is the same for both orders of the samples, and whether the divisor of the effect
  size can be zero. For these the operations of lines 45 to 48 and of line 73 are
  given a second time, with every operation rounded as the hardware rounds it.

  A finite double is an integer of absolute value below \<open>2\<^sup>5\<^sup>3\<close> times a power of two
  with an exponent of at least \<open>-1074\<close>. The result of an operation is the exact result
  rounded to the nearest such number, to the one with the even integer when two are
  equally near; below the smallest normal number the exponent stays \<open>-1074\<close>, so tiny
  results lose digits and finally round to zero. A rounded result of absolute value
  \<open>2\<^sup>1\<^sup>0\<^sup>2\<^sup>4\<close> or more is \<open>inf\<close>. \<open>None\<close> stands for \<open>inf\<close>, \<open>-inf\<close> and \<open>nan\<close>; the sign of
  a zero is not kept.
\<close>

definition round_even :: "real \<Rightarrow> int" where
  "round_even x =
     (if x - real_of_int \<lfloor>x\<rfloor> < 1 / 2 then \<lfloor>x\<rfloor>
      else if 1 / 2 < x - real_of_int \<lfloor>x\<rfloor> then \<lfloor>x\<rfloor> + 1
      else if even \<lfloor>x\<rfloor> then \<lfloor>x\<rfloor> else \<lfloor>x\<rfloor> + 1)"

text \<open>The exponent of the last binary digit a double near \<open>x\<close> keeps.\<close>

definition ulp_exponent :: "real \<Rightarrow> int" where
  "ulp_exponent x = max (\<lfloor>log 2 \<bar>x\<bar>\<rfloor> - 52) (- 1074)"

definition nearest64 :: "real \<Rightarrow> real" where
  "nearest64 x =
     real_of_int (round_even (x / 2 powr real_of_int (ulp_exponent x)))
       * 2 powr real_of_int (ulp_exponent x)"

definition fl64 :: "real \<Rightarrow> npfloat" where
  "fl64 x =
     (if x = 0 then Some 0
      else if 2 powr 1024 \<le> \<bar>nearest64 x\<bar> then None
      else Some (nearest64 x))"

text \<open>\<open>x + y\<close> on doubles: any operand that is not finite gives a result that is not
  finite.\<close>

definition add64 :: "npfloat \<Rightarrow> npfloat \<Rightarrow> npfloat" where
  "add64 a b =
     (case a of
        None \<Rightarrow> None
      | Some x \<Rightarrow> (case b of None \<Rightarrow> None | Some y \<Rightarrow> fl64 (x + y)))"

text \<open>
  \<open>pooled.mean()\<close> in doubles. NumPy is not part of the repository; the order in
  which it adds the entries of a contiguous array of doubles is the one of the
  routine \<open>pairwise_sum\<close> of its sources. Fewer than eight entries are added one after
  the other, starting from zero. Up to 128 entries are added in eight interleaved
  partial sums, which are then added in pairs, and the entries after the last full
  block of eight are added one after the other. A longer array is cut near its
  middle, at a multiple of eight, and the sums of the two parts are added. The
  reduction adds the outcome to its start value, zero; the mean is that sum divided
  by the number of entries, \<open>nan\<close> for an empty array.
\<close>

function blocks8 :: "npfloat list \<Rightarrow> real list \<Rightarrow> npfloat list \<times> real list" where
  "blocks8 r a =
     (if 8 \<le> length a then blocks8 (map2 add64 r (map Some (take 8 a))) (drop 8 a)
      else (r, a))"
  by pat_completeness auto
termination
  by (relation "measure (\<lambda>(r, a). length a)") auto

declare blocks8.simps [simp del]

definition block_sum :: "real list \<Rightarrow> npfloat" where
  "block_sum a =
     (case blocks8 (map Some (take 8 a)) (drop 8 a) of
        (r, rest) \<Rightarrow>
          foldl add64
            (add64 (add64 (add64 (r ! 0) (r ! 1)) (add64 (r ! 2) (r ! 3)))
                   (add64 (add64 (r ! 4) (r ! 5)) (add64 (r ! 6) (r ! 7))))
            (map Some rest))"

function pairwise_sum :: "real list \<Rightarrow> npfloat" where
  "pairwise_sum a =
     (if length a < 8 then foldl add64 (Some 0) (map Some a)
      else if length a \<le> 128 then block_sum a
      else add64
        (pairwise_sum (take (length a div 2 - length a div 2 mod 8) a))
        (pairwise_sum (drop (length a div 2 - length a div 2 mod 8) a)))"
  by pat_completeness auto
termination
  by (relation "measure length") auto

declare pairwise_sum.simps [simp del]

definition np_sum64 :: "real list \<Rightarrow> npfloat" where
  "np_sum64 a = add64 (Some 0) (pairwise_sum a)"

definition np_mean64 :: "real list \<Rightarrow> npfloat" where
  "np_mean64 a =
     (case np_sum64 a of
        None \<Rightarrow> None
      | Some s \<Rightarrow> if a = [] then None else fl64 (s / real (length a)))"

text \<open>
  The divisor of line 73 in doubles, one array operation after the other:
  \<open>sigmas**2\<close> multiplies every entry by itself, the two arrays of squares are added,
  the sum is divided by \<open>2.\<close>, and \<open>np.sqrt\<close> takes the root. The squares are never
  negative, so \<open>None\<close> in this chain is \<open>inf\<close>, the outcome of an overflow.
\<close>

definition square64 :: "real \<Rightarrow> npfloat" where
  "square64 s = fl64 (s * s)"

definition half64 :: "npfloat \<Rightarrow> npfloat" where
  "half64 a = (case a of None \<Rightarrow> None | Some x \<Rightarrow> fl64 (x / 2))"

definition sqrt64 :: "npfloat \<Rightarrow> npfloat" where
  "sqrt64 a =
     (case a of None \<Rightarrow> None | Some x \<Rightarrow> if x < 0 then None else fl64 (sqrt x))"

definition effect_divisor64 :: "real list \<Rightarrow> real list \<Rightarrow> npfloat list" where
  "effect_divisor64 sigmas1 sigmas2 =
     map sqrt64 (map half64 (map2 add64 (map square64 sigmas1) (map square64 sigmas2)))"

subsection \<open>Effects and collaborators\<close>

text \<open>
  What a run does to the outside, in order: a call of \<open>gen_data\<close> with its argument, a
  printed line, a call of the sampler with the model and the three arguments of
  \<open>mcmc.sample\<close>, and a call of the plotting code with the three traces it draws.
  The two printed lines are the message of line 40, with the number of groups, and
  the summary of lines 74 and 75, with its three numbers before formatting.
\<close>

datatype line =
    Requires_2_groups nat
  | Summary npfloat npfloat npfloat

datatype event =
    Gen_data int
  | Sample "node list" int int int
  | Print line
  | Plot "real list" "real list" "real list"

text \<open>An exception of a collaborator is not caught anywhere in \<open>bayes_ttest\<close>: it
  ends the run. The sampler stands for PyMC as a whole, from the constructors of
  lines 47 to 60 to the traces read in lines 65 to 69: it is given the model and the
  three arguments of \<open>mcmc.sample\<close>, and answers with the draws or raises. The plotting
  collaborator stands for lines 78 to 105: it is given the three traces those lines
  draw, and answers \<open>None\<close> when nothing was raised.\<close>

datatype error = Raised_by_sampler | Raised_by_plot

text \<open>The values a caller of a Python function can receive, as far as needed here.\<close>

datatype pyval = PyNone | PyFloat real | PyTuple "pyval list"

type_synonym run = "event list \<times> (error + pyval)"

type_synonym generator = "int \<Rightarrow> real list \<times> real list"
type_synonym sampler = "node list \<Rightarrow> int \<Rightarrow> int \<Rightarrow> int \<Rightarrow> error + draw list"
type_synonym plotter = "real list \<Rightarrow> real list \<Rightarrow> real list \<Rightarrow> error option"

subsection \<open>\<open>bayes_ttest\<close>\<close>

text \<open>Lines 61 and 62: \<open>pm.MCMC(model)\<close> and \<open>mcmc.sample(iter, burn, thin)\<close>. The
  three numbers go to the sampler as they are.\<close>

definition mcmc_sample ::
  "sampler \<Rightarrow> node list \<Rightarrow> int \<Rightarrow> int \<Rightarrow> int \<Rightarrow> event list \<times> (error + draw list)" where
  "mcmc_sample mcmc model iter burn thin =
     ([Sample model iter burn thin], mcmc model iter burn thin)"

text \<open>Lines 45 to 107, for the two groups resolved by lines 37 to 43; \<open>pre\<close> is
  what has happened so far. Lines 71 and 72 compute \<open>diff_sigmas\<close> and \<open>normality\<close>,
  which nothing reads afterwards; they are the definitions above and leave no trace
  in a run.\<close>

definition posterior ::
  "sampler \<Rightarrow> plotter \<Rightarrow> event list \<Rightarrow> real list \<Rightarrow> real list \<Rightarrow> int \<Rightarrow> bool \<Rightarrow> run" where
  "posterior mcmc mcplot pre group1 group2 N show =
     (let model = build_model group1 group2 N;
          (called, answer) = mcmc_sample mcmc model 40000 10000 2;
          sampling = pre @ called
      in case answer of
           Inl e \<Rightarrow> (sampling, Inl e)
         | Inr draws \<Rightarrow>
             (let mus1 = map mu_1 draws;
                  mus2 = map mu_2 draws;
                  sigmas1 = map sigma_1 draws;
                  sigmas2 = map sigma_2 draws;
                  printed = sampling @
                    [Print (Summary (np_mean mus1) (np_mean mus2)
                       (np_mean_opt (effect_size mus1 mus2 sigmas1 sigmas2)))]
              in if show then
                   (case mcplot mus1 mus2 (diff_mus mus1 mus2) of
                      Some e \<Rightarrow> (printed @ [Plot mus1 mus2 (diff_mus mus1 mus2)], Inl e)
                    | None \<Rightarrow> (printed @ [Plot mus1 mus2 (diff_mus mus1 mus2)], Inr PyNone))
                 else (printed, Inr PyNone)))"

text \<open>Lines 37 to 43. An unset \<open>groups\<close> is \<open>None\<close>.\<close>

definition bayes_ttest ::
  "generator \<Rightarrow> sampler \<Rightarrow> plotter \<Rightarrow> real list list option \<Rightarrow> int \<Rightarrow> bool \<Rightarrow> run" where
  "bayes_ttest gen_data mcmc mcplot groups N show =
     (case groups of
        None \<Rightarrow>
          posterior mcmc mcplot [Gen_data 40] (fst (gen_data 40)) (snd (gen_data 40)) N show
      | Some gs \<Rightarrow>
          if length gs \<noteq> 2 then ([Print (Requires_2_groups (length gs))], Inr PyNone)
          else posterior mcmc mcplot [] (gs ! 0) (gs ! 1) N show)"

text \<open>Line 119, the call of the notebook: \<open>N\<close> takes its default, 40.\<close>

definition notebook_call ::
  "generator \<Rightarrow> sampler \<Rightarrow> plotter \<Rightarrow> real list \<Rightarrow> real list \<Rightarrow> run" where
  "notebook_call gen_data mcmc mcplot A B =
     bayes_ttest gen_data mcmc mcplot (Some [A, B]) 40 True"

subsection \<open>Reading a model and a run\<close>

text \<open>The nodes PyMC samples, and the ones it conditions on.\<close>

definition latent :: "node list \<Rightarrow> node list" where
  "latent nodes = filter (\<lambda>n. \<not> observed n) nodes"

definition evidence :: "node list \<Rightarrow> node list" where
  "evidence nodes = filter observed nodes"

text \<open>The data an observed node is conditioned on.\<close>

fun observed_data :: "node \<Rightarrow> real list" where
  "observed_data (NoncentralT _ _ _ _ d _) = d"
| "observed_data _ = []"

text \<open>The centre and the precision of every normal prior of a model.\<close>

fun normal_mu :: "node \<Rightarrow> npfloat list" where
  "normal_mu (Normal _ m _) = [m]"
| "normal_mu _ = []"

fun normal_tau :: "node \<Rightarrow> npfloat list" where
  "normal_tau (Normal _ _ t) = [t]"
| "normal_tau _ = []"

definition prior_centres :: "node list \<Rightarrow> npfloat list" where
  "prior_centres nodes = concat (map normal_mu nodes)"

definition prior_precisions :: "node list \<Rightarrow> npfloat list" where
  "prior_precisions nodes = concat (map normal_tau nodes)"

text \<open>The arguments of \<open>mcmc.sample\<close> in every call a run makes: total iterations,
  burn-in and thinning stride.\<close>

fun sample_config :: "event \<Rightarrow> (int \<times> int \<times> int) list" where
  "sample_config (Sample _ iter burn thin) = [(iter, burn, thin)]"
| "sample_config _ = []"

definition sample_configs :: "event list \<Rightarrow> (int \<times> int \<times> int) list" where
  "sample_configs evs = concat (map sample_config evs)"


subsection \<open>Collaborators for concrete runs\<close>

text \<open>A generator that gives samples of the size asked for, a sampler that answers
  with two draws whatever the model, a sampler that raises, and a plotting
  collaborator that draws without raising.\<close>

definition gen_flat :: generator where
  "gen_flat n = (replicate (nat n) 0, replicate (nat n) 2)"

definition two_draws :: sampler where
  "two_draws model iter burn thin =
     Inr [\<lparr>mu_1 = 3, mu_2 = 1, sigma_1 = 1, sigma_2 = 1, nu = 1\<rparr>,
          \<lparr>mu_1 = 5, mu_2 = 1, sigma_1 = 2, sigma_2 = 2, nu = 1\<rparr>]"

text \<open>A sampler that looks at the model: its one draw holds the sum of the data of
  the first observed node as \<open>mu_1\<close> and the sum of the data of the second as \<open>mu_2\<close>.\<close>

definition sum_sampler :: sampler where
  "sum_sampler model iter burn thin =
     (case map (\<lambda>n. sum_list (observed_data n)) (evidence model) of
        [m1, m2] \<Rightarrow> Inr [\<lparr>mu_1 = m1, mu_2 = m2, sigma_1 = 1, sigma_2 = 1, nu = 1\<rparr>]
      | _ \<Rightarrow> Inl Raised_by_sampler)"

definition raising_sampler :: sampler where
  "raising_sampler model iter burn thin = Inl Raised_by_sampler"

definition quiet_plot :: plotter where
  "quiet_plot mus1 mus2 diff = None"

section \<open>Helper facts\<close>

lemma posterior_success:
  assumes "mcmc (build_model group1 group2 N) 40000 10000 2 = Inr draws"
    and "show \<Longrightarrow>
      mcplot (map mu_1 draws) (map mu_2 draws)
        (diff_mus (map mu_1 draws) (map mu_2 draws)) = None"
  shows "posterior mcmc mcplot pre group1 group2 N show =
     (pre @ [Sample (build_model group1 group2 N) 40000 10000 2,
        Print (Summary (np_mean (map mu_1 draws)) (np_mean (map mu_2 draws))
          (np_mean_opt (effect_size (map mu_1 draws) (map mu_2 draws)
             (map sigma_1 draws) (map sigma_2 draws))))]
      @ (if show then [Plot (map mu_1 draws) (map mu_2 draws)
            (diff_mus (map mu_1 draws) (map mu_2 draws))] else []),
      Inr PyNone)"
  using assms by (simp add: posterior_def mcmc_sample_def Let_def)

lemma posterior_configs:
  "sample_configs (fst (posterior mcmc mcplot pre group1 group2 N show)) =
     sample_configs pre @ [(40000, 10000, 2)]"
  by (simp add: posterior_def mcmc_sample_def sample_configs_def Let_def
      split: sum.splits option.splits)

lemma generator_argument:
  "hd (fst (bayes_ttest gen_data mcmc mcplot None N show)) = Gen_data 40"
  by (simp add: bayes_ttest_def posterior_def mcmc_sample_def Let_def
      split: sum.splits option.splits)

lemma np_mean_append_commute: "np_mean (A @ B) = np_mean (B @ A)"
  by (auto simp add: np_mean_def add.commute)

lemma np_var_append_commute: "np_var (A @ B) = np_var (B @ A)"
  by (auto simp add: np_var_def np_mean_def add.commute)

lemma diff_mus_swap: "diff_mus mus2 mus1 = map uminus (diff_mus mus1 mus2)"
proof (induction mus1 arbitrary: mus2)
  case Nil
  then show ?case by (simp add: diff_mus_def)
next
  case (Cons x xs)
  then show ?case by (cases mus2) (simp_all add: diff_mus_def)
qed

lemma pooled_flat: "np_var (replicate 40 0 @ replicate 40 2) = Some 1"
  by (simp add: np_var_def np_mean_def sum_list_replicate)

subsection \<open>Rounding to a double\<close>

lemma powr_le_pos: "2 powr a \<le> x \<Longrightarrow> 0 < x" for a x :: real
proof -
  assume a: "2 powr a \<le> x"
  have "0 < (2::real) powr a" by simp
  with a show ?thesis by linarith
qed

lemma two_powr_int: "0 \<le> d \<Longrightarrow> 2 powr real_of_int d = real_of_int (2 ^ nat d)"
  by (simp add: powr_real_of_int)

lemma round_even_of_int [simp]: "round_even (real_of_int n) = n"
  by (simp add: round_even_def)

lemma round_even_lower: "real_of_int n \<le> z \<Longrightarrow> n \<le> round_even z"
proof -
  assume "real_of_int n \<le> z"
  then have "n \<le> \<lfloor>z\<rfloor>" by (simp add: le_floor_iff)
  then show ?thesis by (simp add: round_even_def)
qed

lemma ulp_exponent_eq:
  assumes "2 powr real_of_int L \<le> \<bar>x\<bar>" and "\<bar>x\<bar> < 2 powr real_of_int (L + 1)"
  shows "ulp_exponent x = max (L - 52) (- 1074)"
proof -
  have pos: "0 < \<bar>x\<bar>"
    using assms(1) by (rule powr_le_pos)
  have "\<lfloor>log 2 \<bar>x\<bar>\<rfloor> = L"
    using assms pos by (simp add: floor_log_eq_powr_iff)
  then show ?thesis by (simp add: ulp_exponent_def)
qed

lemma nearest64_eval:
  assumes "2 powr real_of_int L \<le> \<bar>x\<bar>" and "\<bar>x\<bar> < 2 powr real_of_int (L + 1)"
  shows "nearest64 x =
     real_of_int (round_even (x / 2 powr real_of_int (max (L - 52) (- 1074))))
       * 2 powr real_of_int (max (L - 52) (- 1074))"
  by (simp only: nearest64_def ulp_exponent_eq [OF assms])

text \<open>A rounded value is not below a power of two that the argument is not below.\<close>

lemma nearest64_lower:
  assumes k: "- 1074 \<le> k" and x: "2 powr real_of_int k \<le> x"
  shows "2 powr real_of_int k \<le> nearest64 x"
proof -
  define e where "e = ulp_exponent x"
  have xpos: "0 < x" using x by (rule powr_le_pos)
  have y: "nearest64 x =
      real_of_int (round_even (x / 2 powr real_of_int e)) * 2 powr real_of_int e"
    by (simp add: nearest64_def e_def)
  show ?thesis
  proof (cases "e \<le> k")
    case True
    define d where "d = k - e"
    have d: "0 \<le> d" and k_eq: "k = d + e" using True by (simp_all add: d_def)
    have split: "2 powr real_of_int k = real_of_int (2 ^ nat d) * 2 powr real_of_int e"
      using two_powr_int [OF d] by (simp add: k_eq powr_add)
    have "real_of_int (2 ^ nat d) \<le> x / 2 powr real_of_int e"
      using x by (simp add: split pos_le_divide_eq)
    then have "2 ^ nat d \<le> round_even (x / 2 powr real_of_int e)"
      by (rule round_even_lower)
    then have "real_of_int (2 ^ nat d)
        \<le> real_of_int (round_even (x / 2 powr real_of_int e))"
      by (simp only: of_int_le_iff)
    then have "real_of_int (2 ^ nat d) * 2 powr real_of_int e \<le> nearest64 x"
      unfolding y by (rule mult_right_mono) simp
    then show ?thesis by (simp only: split)
  next
    case False
    then have e: "e = \<lfloor>log 2 \<bar>x\<bar>\<rfloor> - 52"
      using k by (simp add: e_def ulp_exponent_def)
    have "2 powr real_of_int (e + 52) \<le> x"
      using floor_log_eq_powr_iff [of "\<bar>x\<bar>" 2 "e + 52"] xpos e by simp
    moreover have "2 powr real_of_int e \<le> 2 powr real_of_int (e + 52)"
      by (intro powr_mono) simp_all
    ultimately have "2 powr real_of_int e \<le> x" by linarith
    then have "real_of_int 1 \<le> x / 2 powr real_of_int e"
      by (simp add: pos_le_divide_eq)
    then have "1 \<le> round_even (x / 2 powr real_of_int e)"
      by (rule round_even_lower)
    then have "1 \<le> real_of_int (round_even (x / 2 powr real_of_int e))" by simp
    then have "2 powr real_of_int e \<le> nearest64 x"
      unfolding y by (simp add: mult_le_cancel_right1)
    moreover have "2 powr real_of_int k \<le> 2 powr real_of_int e"
      using False by (intro powr_mono) simp_all
    ultimately show ?thesis by linarith
  qed
qed

lemma fl64_lower:
  assumes "- 1074 \<le> k" and "2 powr real_of_int k \<le> x" and "fl64 x = Some y"
  shows "2 powr real_of_int k \<le> y"
proof -
  have "0 < x" using assms(2) by (rule powr_le_pos)
  with assms(3) have "y = nearest64 x" by (simp add: fl64_def split: if_splits)
  with nearest64_lower [OF assms(1,2)] show ?thesis by simp
qed

text \<open>A double that is not zero is not below the smallest subnormal number.\<close>

lemma fl64_nonneg_cases:
  assumes "0 \<le> x" and "fl64 x = Some y"
  shows "y = 0 \<or> 2 powr (- 1074) \<le> y"
proof (cases "x = 0")
  case True
  with assms show ?thesis by (simp add: fl64_def)
next
  case False
  define e where "e = ulp_exponent x"
  define m where "m = round_even (x / 2 powr real_of_int e)"
  have y: "y = real_of_int m * 2 powr real_of_int e"
    using assms False by (simp add: fl64_def nearest64_def e_def m_def split: if_splits)
  have "real_of_int 0 \<le> x / 2 powr real_of_int e" using assms by simp
  then have m0: "0 \<le> m" unfolding m_def by (rule round_even_lower)
  show ?thesis
  proof (cases "m = 0")
    case True
    then show ?thesis by (simp add: y)
  next
    case False
    with m0 have "1 \<le> real_of_int m" by linarith
    then have "2 powr real_of_int e \<le> y" by (simp add: y mult_le_cancel_right1)
    moreover have "2 powr (- 1074) \<le> 2 powr real_of_int e"
      by (intro powr_mono) (simp_all add: e_def ulp_exponent_def)
    ultimately show ?thesis by linarith
  qed
qed

text \<open>Less than half of the smallest subnormal number rounds to zero.\<close>

lemma fl64_underflow:
  assumes "0 < x" and "x < 2 powr (- 1075)"
  shows "fl64 x = Some 0"
proof -
  have "log 2 x < - 1075"
    using assms by (simp add: log_less_iff)
  then have "\<lfloor>log 2 \<bar>x\<bar>\<rfloor> < - 1075"
    using assms(1) by (simp add: floor_less_iff)
  then have e: "ulp_exponent x = - 1074"
    unfolding ulp_exponent_def by linarith
  define z where "z = x / 2 powr (- 1074)"
  have half: "z < 1 / 2"
  proof -
    have "2 powr (- 1075) = 2 powr (- 1074) * (1 / 2 :: real)"
      by (simp add: powr_neg_numeral)
    with assms(2) show ?thesis by (simp add: z_def pos_divide_less_eq mult.commute)
  qed
  have z0: "0 \<le> z" using assms(1) by (simp add: z_def)
  from half z0 have "\<lfloor>z\<rfloor> = 0" by (intro floor_unique) simp_all
  with half have "round_even z = 0"
    by (simp add: round_even_def)
  then have "nearest64 x = 0" by (simp add: nearest64_def e z_def)
  with assms(1) show ?thesis by (simp add: fl64_def)
qed

text \<open>An integer of absolute value below \<open>2\<^sup>5\<^sup>3\<close> is a double.\<close>

lemma nearest64_small_int:
  assumes "n \<noteq> 0" and "\<bar>n\<bar> < 2 ^ 53"
  shows "nearest64 (real_of_int n) = real_of_int n"
proof -
  define e where "e = ulp_exponent (real_of_int n)"
  have "real_of_int \<bar>n\<bar> < real_of_int (2 ^ 53)"
    using assms(2) by (simp only: of_int_less_iff)
  then have "\<bar>real_of_int n\<bar> < 2 powr 53" by simp
  then have "log 2 \<bar>real_of_int n\<bar> < 53"
    using assms(1) by (simp add: log_less_iff)
  then have "\<lfloor>log 2 \<bar>real_of_int n\<bar>\<rfloor> < 53"
    by (simp add: floor_less_iff)
  then have e0: "e \<le> 0"
    unfolding e_def ulp_exponent_def by linarith
  have p: "2 powr real_of_int (- e) = real_of_int (2 ^ nat (- e))"
    using e0 by (intro two_powr_int) simp
  have "real_of_int n / 2 powr real_of_int e = real_of_int n * 2 powr real_of_int (- e)"
    by (simp add: powr_minus field_simps)
  also have "\<dots> = real_of_int (n * 2 ^ nat (- e))"
    by (simp only: p of_int_mult)
  finally have "round_even (real_of_int n / 2 powr real_of_int e) = n * 2 ^ nat (- e)"
    by (simp only: round_even_of_int)
  then have "nearest64 (real_of_int n) =
      real_of_int (n * 2 ^ nat (- e)) * 2 powr real_of_int e"
    by (simp add: nearest64_def e_def)
  also have "\<dots> = real_of_int n * (2 powr real_of_int (- e) * 2 powr real_of_int e)"
    by (simp only: of_int_mult p mult.assoc)
  also have "\<dots> = real_of_int n"
    by (simp add: powr_add [symmetric])
  finally show ?thesis .
qed

lemma fl64_small_int:
  assumes "\<bar>n\<bar> < 2 ^ 53"
  shows "fl64 (real_of_int n) = Some (real_of_int n)"
proof (cases "n = 0")
  case True
  then show ?thesis by (simp add: fl64_def)
next
  case False
  have "real_of_int \<bar>n\<bar> < real_of_int (2 ^ 53)"
    using assms by (simp only: of_int_less_iff)
  then have "\<bar>real_of_int n\<bar> < 2 powr 1024" by simp
  with False show ?thesis
    by (simp add: fl64_def nearest64_small_int [OF False assms])
qed

lemma fl64_numeral:
  "\<bar>numeral w :: int\<bar> < 2 ^ 53 \<Longrightarrow> fl64 (numeral w) = Some (numeral w)"
  using fl64_small_int [of "numeral w"] by simp

lemma fl64_0: "fl64 0 = Some 0"
  by (simp add: fl64_def)

lemma fl64_1: "fl64 1 = Some 1"
  using fl64_small_int [of 1] by simp

text \<open>\<open>10\<^sup>1\<^sup>6\<close> is five times \<open>10\<^sup>1\<^sup>5\<close> times 2, a double; \<open>10\<^sup>1\<^sup>6 + 1\<close> lies half-way between
  two doubles and goes to the even one; a third is not a double.\<close>

lemma fl64_1e16: "fl64 10000000000000000 = Some 10000000000000000"
proof -
  have "nearest64 10000000000000000 = 10000000000000000"
    using nearest64_eval [of 53 10000000000000000] by (simp add: round_even_def)
  then show ?thesis by (simp add: fl64_def)
qed

lemma fl64_1e16_plus_1: "fl64 10000000000000001 = Some 10000000000000000"
proof -
  have "nearest64 10000000000000001 = 10000000000000000"
    using nearest64_eval [of 53 10000000000000001] by (simp add: round_even_def)
  then show ?thesis by (simp add: fl64_def)
qed

lemma fl64_third: "fl64 (1 / 3) = Some (6004799503160661 / 18014398509481984)"
proof -
  have "nearest64 (1 / 3) = 6004799503160661 / 18014398509481984"
    using nearest64_eval [of "- 2" "1 / 3"] by (simp add: round_even_def powr_neg_numeral)
  then show ?thesis by (simp add: fl64_def)
qed

lemma square64_tiny: "square64 (1 / 10 ^ 200) = Some 0"
  unfolding square64_def by (rule fl64_underflow) (simp_all add: powr_neg_numeral)

subsection \<open>The divisor in doubles\<close>

lemma effect_divisor64_elem:
  assumes "d \<in> set (effect_divisor64 sigmas1 sigmas2)"
  shows "\<exists>a \<in> set sigmas1. \<exists>b \<in> set sigmas2.
           d = sqrt64 (half64 (add64 (square64 a) (square64 b)))"
  using assms
  by (auto simp add: effect_divisor64_def zip_map_map dest: set_zip_leftD set_zip_rightD)

lemma square64_cases:
  assumes "square64 s \<noteq> Some 0"
  shows "square64 s = None \<or> (\<exists>p. square64 s = Some p \<and> 2 powr (- 1074) \<le> p)"
proof (cases "square64 s")
  case None
  then show ?thesis by simp
next
  case (Some p)
  then have "fl64 (s * s) = Some p" by (simp add: square64_def)
  from fl64_nonneg_cases [OF _ this] Some assms show ?thesis by auto
qed

text \<open>Two squares that are not zero: the sum is at least twice the smallest
  subnormal number, its half at least that number, and the root at least \<open>2\<^sup>-\<^sup>5\<^sup>3\<^sup>7\<close>.\<close>

lemma divisor64_entry:
  assumes p: "2 powr (- 1074) \<le> p" and q: "2 powr (- 1074) \<le> q"
    and d: "sqrt64 (half64 (add64 (Some p) (Some q))) = Some y"
  shows "2 powr (- 537) \<le> y"
proof -
  from d obtain c where c: "fl64 (p + q) = Some c"
    by (auto simp add: add64_def sqrt64_def half64_def split: option.splits)
  have "2 powr real_of_int (- 1073) = 2 * 2 powr (- 1074)"
    by (simp add: powr_neg_numeral)
  with p q have "2 powr real_of_int (- 1073) \<le> p + q" by linarith
  from fl64_lower [OF _ this c] have c_low: "2 powr real_of_int (- 1073) \<le> c" by simp
  from d c obtain h where h: "fl64 (c / 2) = Some h"
    by (auto simp add: add64_def sqrt64_def half64_def split: option.splits)
  have "2 powr real_of_int (- 1074) = 2 powr real_of_int (- 1073) / 2"
    by (simp add: powr_neg_numeral)
  with c_low have "2 powr real_of_int (- 1074) \<le> c / 2" by linarith
  from fl64_lower [OF _ this h] have h_low: "2 powr real_of_int (- 1074) \<le> h" by simp
  then have h0: "0 < h" by (rule powr_le_pos)
  from d c h h0 have y: "fl64 (sqrt h) = Some y"
    by (simp add: add64_def sqrt64_def half64_def)
  have "sqrt (2 powr real_of_int (- 1074)) = 2 powr real_of_int (- 537)"
    by (simp add: powr_half_sqrt [symmetric] powr_powr)
  with h_low have "2 powr real_of_int (- 537) \<le> sqrt h"
    by (metis real_sqrt_le_iff)
  from fl64_lower [OF _ this y] show ?thesis by simp
qed

section \<open>What a run gives back\<close>

text \<open>
  C1, as the code has it. A run over two samples in which the sampler answers and the
  plotting code, if called, does not raise: \<open>bayes_ttest\<close> calls the sampler once,
  prints one line with the mean of the \<open>mu_1\<close> trace, the mean of the \<open>mu_2\<close> trace and
  the mean of the effect-size trace, and returns \<open>None\<close>. When \<open>show\<close> is set the two
  mean traces and the trace of their difference go to the plotting code; they are
  not returned either. The samples are the two given ones, or the two that
  \<open>gen_data\<close> answers when \<open>groups\<close> is unset.
\<close>

theorem summary_printed_not_returned:
  assumes "mcmc (build_model group1 group2 N) 40000 10000 2 = Inr draws"
    and "show \<longrightarrow>
      mcplot (map mu_1 draws) (map mu_2 draws)
        (diff_mus (map mu_1 draws) (map mu_2 draws)) = None"
  shows "bayes_ttest gen_data mcmc mcplot (Some [group1, group2]) N show =
     ([Sample (build_model group1 group2 N) 40000 10000 2,
       Print (Summary (np_mean (map mu_1 draws)) (np_mean (map mu_2 draws))
          (np_mean_opt (effect_size (map mu_1 draws) (map mu_2 draws)
             (map sigma_1 draws) (map sigma_2 draws))))]
      @ (if show then [Plot (map mu_1 draws) (map mu_2 draws)
            (diff_mus (map mu_1 draws) (map mu_2 draws))] else []),
      Inr PyNone)
   \<and> (gen_data 40 = (group1, group2) \<longrightarrow>
       bayes_ttest gen_data mcmc mcplot None N show =
         ([Gen_data 40, Sample (build_model group1 group2 N) 40000 10000 2,
           Print (Summary (np_mean (map mu_1 draws)) (np_mean (map mu_2 draws))
              (np_mean_opt (effect_size (map mu_1 draws) (map mu_2 draws)
                 (map sigma_1 draws) (map sigma_2 draws))))]
          @ (if show then [Plot (map mu_1 draws) (map mu_2 draws)
                (diff_mus (map mu_1 draws) (map mu_2 draws))] else []),
          Inr PyNone))"
  using posterior_success [of mcmc group1 group2 N draws "show" mcplot "[]"]
    posterior_success [of mcmc group1 group2 N draws "show" mcplot "[Gen_data 40]"] assms
  by (simp add: bayes_ttest_def)

text \<open>A run with plotting, over the two samples a generator gives: the means of the
  traces \<open>[3, 5]\<close> and \<open>[1, 1]\<close> are 4 and 1, the effect sizes are \<open>2 / 1\<close> and \<open>4 / 2\<close>.\<close>

theorem summary_printed_not_returned_witness:
  "bayes_ttest gen_flat two_draws quiet_plot (Some [fst (gen_flat 40), snd (gen_flat 40)]) 40 True =
     ([Sample (build_model (fst (gen_flat 40)) (snd (gen_flat 40)) 40) 40000 10000 2,
       Print (Summary (Some 4) (Some 1) (Some 2)),
       Plot [3, 5] [1, 1] [2, 4]],
      Inr PyNone)
   \<and> bayes_ttest gen_flat two_draws quiet_plot None 40 True =
     ([Gen_data 40,
       Sample (build_model (fst (gen_flat 40)) (snd (gen_flat 40)) 40) 40000 10000 2,
       Print (Summary (Some 4) (Some 1) (Some 2)),
       Plot [3, 5] [1, 1] [2, 4]],
      Inr PyNone)"
  using summary_printed_not_returned [of two_draws "fst (gen_flat 40)" "snd (gen_flat 40)" 40
      "[\<lparr>mu_1 = 3, mu_2 = 1, sigma_1 = 1, sigma_2 = 1, nu = 1\<rparr>,
        \<lparr>mu_1 = 5, mu_2 = 1, sigma_1 = 2, sigma_2 = 2, nu = 1\<rparr>]" True quiet_plot gen_flat]
  by (simp add: two_draws_def quiet_plot_def np_mean_def np_mean_opt_def effect_size_def
      effect_divisor_def np_truediv_def diff_mus_def)

text \<open>The claim as the specification words it, a result holding the three estimates
  and the traces, fails on the run over \<open>[0]\<close> and \<open>[2]\<close> with plotting: the caller
  receives \<open>None\<close>, not the estimates 4, 1 and 2 of that run.\<close>

theorem returns_none_counterexample:
  "snd (bayes_ttest gen_flat two_draws quiet_plot (Some [[0], [2]]) 40 True) = Inr PyNone
   \<and> snd (bayes_ttest gen_flat two_draws quiet_plot (Some [[0], [2]]) 40 True) \<noteq>
       Inr (PyTuple [PyFloat 4, PyFloat 1, PyFloat 2])"
  by (simp add: bayes_ttest_def posterior_def mcmc_sample_def two_draws_def quiet_plot_def
      Let_def)

section \<open>The number of groups\<close>

text \<open>
  C2, as the code has it. When \<open>groups\<close> holds any number of samples other than two,
  \<open>bayes_ttest\<close> prints the message of line 40 with that number and returns \<open>None\<close>:
  nothing is raised, no model is built and the sampler is not called, whatever the
  generator, the sampler and the plotting code are. When \<open>groups\<close> holds two samples
  the sampler is called once; if it answers, and the plotting code does not raise,
  the summary is printed and the run returns \<open>None\<close> as well.
\<close>

theorem invalid_count_message_before_sampling:
  "(length gs \<noteq> 2 \<longrightarrow>
      bayes_ttest gen_data mcmc mcplot (Some gs) N show =
        ([Print (Requires_2_groups (length gs))], Inr PyNone))
   \<and> (length gs = 2 \<longrightarrow>
        sample_configs (fst (bayes_ttest gen_data mcmc mcplot (Some gs) N show)) =
          [(40000, 10000, 2)])
   \<and> (length gs = 2 \<and> mcmc (build_model (gs ! 0) (gs ! 1) N) 40000 10000 2 = Inr draws
        \<and> (show \<longrightarrow> mcplot (map mu_1 draws) (map mu_2 draws)
              (diff_mus (map mu_1 draws) (map mu_2 draws)) = None) \<longrightarrow>
        snd (bayes_ttest gen_data mcmc mcplot (Some gs) N show) = Inr PyNone
        \<and> Print (Summary (np_mean (map mu_1 draws)) (np_mean (map mu_2 draws))
              (np_mean_opt (effect_size (map mu_1 draws) (map mu_2 draws)
                 (map sigma_1 draws) (map sigma_2 draws))))
            \<in> set (fst (bayes_ttest gen_data mcmc mcplot (Some gs) N show)))"
proof (intro conjI impI)
  assume "length gs \<noteq> 2"
  then show "bayes_ttest gen_data mcmc mcplot (Some gs) N show =
      ([Print (Requires_2_groups (length gs))], Inr PyNone)"
    by (simp add: bayes_ttest_def)
next
  assume "length gs = 2"
  then have "bayes_ttest gen_data mcmc mcplot (Some gs) N show =
      posterior mcmc mcplot [] (gs ! 0) (gs ! 1) N show"
    by (simp add: bayes_ttest_def)
  then show "sample_configs (fst (bayes_ttest gen_data mcmc mcplot (Some gs) N show)) =
      [(40000, 10000, 2)]"
    by (simp only: posterior_configs) (simp add: sample_configs_def)
next
  assume a: "length gs = 2 \<and> mcmc (build_model (gs ! 0) (gs ! 1) N) 40000 10000 2 = Inr draws
        \<and> (show \<longrightarrow> mcplot (map mu_1 draws) (map mu_2 draws)
              (diff_mus (map mu_1 draws) (map mu_2 draws)) = None)"
  then have run: "bayes_ttest gen_data mcmc mcplot (Some gs) N show =
      posterior mcmc mcplot [] (gs ! 0) (gs ! 1) N show"
    by (simp add: bayes_ttest_def)
  from a have p: "posterior mcmc mcplot [] (gs ! 0) (gs ! 1) N show =
     ([] @ [Sample (build_model (gs ! 0) (gs ! 1) N) 40000 10000 2,
        Print (Summary (np_mean (map mu_1 draws)) (np_mean (map mu_2 draws))
          (np_mean_opt (effect_size (map mu_1 draws) (map mu_2 draws)
             (map sigma_1 draws) (map sigma_2 draws))))]
      @ (if show then [Plot (map mu_1 draws) (map mu_2 draws)
            (diff_mus (map mu_1 draws) (map mu_2 draws))] else []),
      Inr PyNone)"
    by (intro posterior_success) simp_all
  show "snd (bayes_ttest gen_data mcmc mcplot (Some gs) N show) = Inr PyNone"
    by (simp only: run p snd_conv)
  show "Print (Summary (np_mean (map mu_1 draws)) (np_mean (map mu_2 draws))
              (np_mean_opt (effect_size (map mu_1 draws) (map mu_2 draws)
                 (map sigma_1 draws) (map sigma_2 draws))))
            \<in> set (fst (bayes_ttest gen_data mcmc mcplot (Some gs) N show))"
    unfolding run p by simp
qed

text \<open>Three groups and no group, with a sampler that would raise if it were called;
  two groups, with a sampler that answers.\<close>

theorem invalid_count_message_before_sampling_witness:
  "bayes_ttest gen_flat raising_sampler quiet_plot (Some [[1], [2], [3]]) 40 True =
      ([Print (Requires_2_groups 3)], Inr PyNone)
   \<and> bayes_ttest gen_flat raising_sampler quiet_plot (Some []) 40 True =
      ([Print (Requires_2_groups 0)], Inr PyNone)
   \<and> sample_configs (fst (bayes_ttest gen_flat two_draws quiet_plot (Some [[0], [2]]) 40 True)) =
      [(40000, 10000, 2)]
   \<and> snd (bayes_ttest gen_flat two_draws quiet_plot (Some [[0], [2]]) 40 True) = Inr PyNone
   \<and> Print (Summary (Some 4) (Some 1) (Some 2))
       \<in> set (fst (bayes_ttest gen_flat two_draws quiet_plot (Some [[0], [2]]) 40 True))"
  using invalid_count_message_before_sampling
      [of "[[1], [2], [3]]" gen_flat raising_sampler quiet_plot 40 True]
    invalid_count_message_before_sampling
      [of "[]" gen_flat raising_sampler quiet_plot 40 True]
    invalid_count_message_before_sampling
      [of "[[0], [2]]" gen_flat two_draws quiet_plot 40 True
        "[\<lparr>mu_1 = 3, mu_2 = 1, sigma_1 = 1, sigma_2 = 1, nu = 1\<rparr>,
          \<lparr>mu_1 = 5, mu_2 = 1, sigma_1 = 2, sigma_2 = 2, nu = 1\<rparr>]"]
  by (simp add: two_draws_def quiet_plot_def np_mean_def np_mean_opt_def effect_size_def
      effect_divisor_def np_truediv_def diff_mus_def)

text \<open>The claim as the specification words it, a failure with an error, fails on one
  group: the run ends normally, and what its caller receives is what the caller of a
  run over two groups receives.\<close>

theorem invalid_count_returns_normally_counterexample:
  "bayes_ttest gen_flat two_draws quiet_plot (Some [[1]]) 40 False =
     ([Print (Requires_2_groups 1)], Inr PyNone)
   \<and> \<not> isl (snd (bayes_ttest gen_flat two_draws quiet_plot (Some [[1]]) 40 False))
   \<and> snd (bayes_ttest gen_flat two_draws quiet_plot (Some [[1]]) 40 False) =
       snd (bayes_ttest gen_flat two_draws quiet_plot (Some [[0], [2]]) 40 False)"
  by (simp add: bayes_ttest_def posterior_def mcmc_sample_def two_draws_def Let_def)

section \<open>Generated data\<close>

text \<open>
  C3 says that an unset \<open>groups\<close> makes \<open>bayes_ttest\<close> generate two samples of \<open>N\<close>
  entries each. Line 38 asks the generator for 40 entries whatever \<open>N\<close> is. The run
  with \<open>N = 10\<close> and a generator that gives what it is asked for: the generator is
  called with 40, each sample of the model has 40 entries, and 10 only enters the
  precision of the two normal priors.
\<close>

theorem generator_asked_for_40_when_N_is_10:
  "fst (bayes_ttest gen_flat two_draws quiet_plot None 10 False) =
     [Gen_data 40,
      Sample (build_model (replicate 40 0) (replicate 40 2) 10) 40000 10000 2,
      Print (Summary (Some 4) (Some 1) (Some 2))]
   \<and> length (replicate 40 (0::real)) \<noteq> 10
   \<and> prior_precisions (build_model (replicate 40 0) (replicate 40 2) 10) =
       [Some (1 / 10), Some (1 / 10)]"
proof (intro conjI)
  show "fst (bayes_ttest gen_flat two_draws quiet_plot None 10 False) =
     [Gen_data 40,
      Sample (build_model (replicate 40 0) (replicate 40 2) 10) 40000 10000 2,
      Print (Summary (Some 4) (Some 1) (Some 2))]"
    by (simp add: bayes_ttest_def posterior_def mcmc_sample_def gen_flat_def two_draws_def
        Let_def np_mean_def np_mean_opt_def effect_size_def effect_divisor_def np_truediv_def)
  show "length (replicate 40 (0::real)) \<noteq> 10"
    by simp
  show "prior_precisions (build_model (replicate 40 0) (replicate 40 2) 10) =
       [Some (1 / 10), Some (1 / 10)]"
    by (simp add: prior_precisions_def build_model_def prior_tau_def Let_def pooled_flat
        np_truediv_def)
qed

section \<open>The model\<close>

text \<open>
  C4. Whatever the two samples, the model has exactly five latent parameters: the
  two group means, each with a normal prior centred at the mean of the pooled data
  and with the precision \<open>1 / variance / N\<close>; the two group scales, each with a uniform
  prior from a thousandth of the pooled variance to a thousand times the pooled
  variance; and one parameter \<open>nu\<close> with an exponential prior, which is the \<open>nu\<close> of
  both observed nodes.
\<close>

theorem five_latent_parameters:
  "latent (build_model group1 group2 N) =
     [Normal ''mu_1'' (np_mean (group1 @ group2))
        (np_truediv (np_truediv (Some 1) (np_var (group1 @ group2))) (Some (real_of_int N))),
      Uniform ''sigma_1'' (map_option (\<lambda>v. v / 1000) (np_var (group1 @ group2)))
        (map_option (\<lambda>v. v * 1000) (np_var (group1 @ group2))),
      Normal ''mu_2'' (np_mean (group1 @ group2))
        (np_truediv (np_truediv (Some 1) (np_var (group1 @ group2))) (Some (real_of_int N))),
      Uniform ''sigma_2'' (map_option (\<lambda>v. v / 1000) (np_var (group1 @ group2)))
        (map_option (\<lambda>v. v * 1000) (np_var (group1 @ group2))),
      Exponential ''nu'' (1 / 29)]
   \<and> length (latent (build_model group1 group2 N)) = 5
   \<and> distinct (map label (latent (build_model group1 group2 N)))
   \<and> map (\<lambda>n. case n of NoncentralT _ _ _ df _ _ \<Rightarrow> df | _ \<Rightarrow> [])
       (evidence (build_model group1 group2 N)) = [''nu'', ''nu'']"
  by (simp add: latent_def evidence_def build_model_def prior_tau_def Let_def)

text \<open>The same statement at the samples \<open>[0]\<close> and \<open>[2]\<close> with \<open>N = 40\<close>: the pooled
  mean is 1 and the pooled variance is 1.\<close>

theorem five_latent_parameters_witness:
  "latent (build_model [0] [2] 40) =
     [Normal ''mu_1'' (Some 1) (Some (1 / 40)),
      Uniform ''sigma_1'' (Some (1 / 1000)) (Some 1000),
      Normal ''mu_2'' (Some 1) (Some (1 / 40)),
      Uniform ''sigma_2'' (Some (1 / 1000)) (Some 1000),
      Exponential ''nu'' (1 / 29)]"
  using five_latent_parameters [of "[0]" "[2]" 40]
  by (simp add: np_mean_def np_var_def np_truediv_def)

text \<open>
  C8. The observed node of group 1 and the observed node of group 2 are both
  constructed under the label \<open>t_1\<close>: the model holds exactly two observed nodes, the
  first over the data of group 1 with the parents \<open>mu_1\<close> and \<open>sigma_1\<close>, the second
  over the data of group 2 with the parents \<open>mu_2\<close> and \<open>sigma_2\<close>, and the labels of
  the two are the same string.
\<close>

theorem observed_nodes_share_label:
  "evidence (build_model group1 group2 N) =
     [NoncentralT ''t_1'' ''mu_1'' ''sigma_1'' ''nu'' group1 True,
      NoncentralT ''t_1'' ''mu_2'' ''sigma_2'' ''nu'' group2 True]
   \<and> map label (evidence (build_model group1 group2 N)) = [''t_1'', ''t_1'']"
  by (simp add: evidence_def build_model_def Let_def)

text \<open>
  C10. For two samples given by the caller, the precision of both normal priors is
  \<open>1 / (variance * N)\<close>, with the pooled variance of the samples and the argument \<open>N\<close>
  of \<open>bayes_ttest\<close> (not a float when the variance or \<open>N\<close> is zero). The lengths of the
  samples do not enter: two pairs of samples of the same pooled variance get the
  same precisions under the same \<open>N\<close>. The call of the notebook leaves \<open>N\<close> at its
  default, so its model is the one for \<open>N = 40\<close>.
\<close>

theorem prior_precision_from_N:
  assumes "np_var (g1 @ g2) = Some v" and "np_var (h1 @ h2) = Some v"
  shows "prior_precisions (build_model g1 g2 N) =
       [if v = 0 \<or> N = 0 then None else Some (1 / (v * real_of_int N)),
        if v = 0 \<or> N = 0 then None else Some (1 / (v * real_of_int N))]
     \<and> prior_precisions (build_model h1 h2 N) = prior_precisions (build_model g1 g2 N)
     \<and> hd (fst (notebook_call gen_data mcmc mcplot g1 g2)) =
         Sample (build_model g1 g2 40) 40000 10000 2"
  using assms
  by (simp add: prior_precisions_def build_model_def Let_def prior_tau_def np_truediv_def
      notebook_call_def bayes_ttest_def posterior_def mcmc_sample_def
      split: sum.splits option.splits)

text \<open>Two samples of one entry each and two samples of three entries each, both
  pairs with the pooled variance 1: the precision is \<open>1 / 40\<close> for both.\<close>

theorem prior_precision_from_N_witness:
  "prior_precisions (build_model [0] [2] 40) = [Some (1 / 40), Some (1 / 40)]
   \<and> prior_precisions (build_model [0, 0, 0] [2, 2, 2] 40) = [Some (1 / 40), Some (1 / 40)]
   \<and> length ([0::real] @ [2]) = 2 \<and> length ([0::real, 0, 0] @ [2, 2, 2]) = 6"
proof -
  have g: "np_var ([0] @ [2]) = Some 1"
    by (simp add: np_var_def np_mean_def)
  have h: "np_var ([0, 0, 0] @ [2, 2, 2]) = Some 1"
    by (simp add: np_var_def np_mean_def)
  show ?thesis
    using prior_precision_from_N [OF g h, of 40] by simp
qed

text \<open>
  C6, as the code has it. Both normal priors of a run are centred at the same value,
  the mean of the concatenation of the run's two samples, group 1 first. A run over
  \<open>[A, B]\<close> and a run over \<open>[B, A]\<close> pool the same values in a different order: in
  exact arithmetic the pooled mean is the same for both, and so are all five priors.
  (The doubles the code computes can differ between the two orders by rounding; see
  the counterexample below.) Exchanging the samples exchanges the data of the two
  observed nodes, the one over \<open>mu_1\<close> and the one over \<open>mu_2\<close>. The difference trace of
  a run is \<open>mus1 - mus2\<close> of the traces of that run: when the sampler answers the run
  over \<open>[B, A]\<close> with the two mean traces of the run over \<open>[A, B]\<close> exchanged, the
  difference trace that the run over \<open>[B, A]\<close> plots is the negated difference trace
  of the run over \<open>[A, B]\<close>.
\<close>

theorem pooled_mean_exact_and_swap:
  "prior_centres (build_model A B N) = [np_mean (A @ B), np_mean (A @ B)]
   \<and> np_mean (A @ B) =
       (if A @ B = [] then None
        else Some ((sum_list A + sum_list B) / real (length A + length B)))
   \<and> np_mean (B @ A) = np_mean (A @ B)
   \<and> latent (build_model B A N) = latent (build_model A B N)
   \<and> evidence (build_model A B N) =
       [NoncentralT ''t_1'' ''mu_1'' ''sigma_1'' ''nu'' A True,
        NoncentralT ''t_1'' ''mu_2'' ''sigma_2'' ''nu'' B True]
   \<and> evidence (build_model B A N) =
       [NoncentralT ''t_1'' ''mu_1'' ''sigma_1'' ''nu'' B True,
        NoncentralT ''t_1'' ''mu_2'' ''sigma_2'' ''nu'' A True]
   \<and> (mcmc (build_model A B N) 40000 10000 2 = Inr draws
        \<and> mcmc (build_model B A N) 40000 10000 2 = Inr swapped
        \<and> map mu_1 swapped = map mu_2 draws \<and> map mu_2 swapped = map mu_1 draws \<longrightarrow>
        last (fst (bayes_ttest gen_data mcmc mcplot (Some [A, B]) N True)) =
          Plot (map mu_1 draws) (map mu_2 draws)
            (diff_mus (map mu_1 draws) (map mu_2 draws))
        \<and> last (fst (bayes_ttest gen_data mcmc mcplot (Some [B, A]) N True)) =
          Plot (map mu_2 draws) (map mu_1 draws)
            (map uminus (diff_mus (map mu_1 draws) (map mu_2 draws))))"
proof (intro conjI impI)
  show "prior_centres (build_model A B N) = [np_mean (A @ B), np_mean (A @ B)]"
    by (simp add: prior_centres_def build_model_def Let_def)
  show "np_mean (A @ B) =
       (if A @ B = [] then None
        else Some ((sum_list A + sum_list B) / real (length A + length B)))"
    by (simp add: np_mean_def)
  show "np_mean (B @ A) = np_mean (A @ B)"
    by (rule np_mean_append_commute)
  show "latent (build_model B A N) = latent (build_model A B N)"
    by (simp add: latent_def build_model_def Let_def prior_tau_def
        np_mean_append_commute [of A B] np_var_append_commute [of A B])
  show "evidence (build_model A B N) =
       [NoncentralT ''t_1'' ''mu_1'' ''sigma_1'' ''nu'' A True,
        NoncentralT ''t_1'' ''mu_2'' ''sigma_2'' ''nu'' B True]"
    by (simp add: evidence_def build_model_def Let_def)
  show "evidence (build_model B A N) =
       [NoncentralT ''t_1'' ''mu_1'' ''sigma_1'' ''nu'' B True,
        NoncentralT ''t_1'' ''mu_2'' ''sigma_2'' ''nu'' A True]"
    by (simp add: evidence_def build_model_def Let_def)
next
  assume a: "mcmc (build_model A B N) 40000 10000 2 = Inr draws
        \<and> mcmc (build_model B A N) 40000 10000 2 = Inr swapped
        \<and> map mu_1 swapped = map mu_2 draws \<and> map mu_2 swapped = map mu_1 draws"
  then show "last (fst (bayes_ttest gen_data mcmc mcplot (Some [A, B]) N True)) =
          Plot (map mu_1 draws) (map mu_2 draws)
            (diff_mus (map mu_1 draws) (map mu_2 draws))"
    by (simp add: bayes_ttest_def posterior_def mcmc_sample_def Let_def
        split: option.splits)
  from a show "last (fst (bayes_ttest gen_data mcmc mcplot (Some [B, A]) N True)) =
          Plot (map mu_2 draws) (map mu_1 draws)
            (map uminus (diff_mus (map mu_1 draws) (map mu_2 draws)))"
    by (simp add: bayes_ttest_def posterior_def mcmc_sample_def Let_def
        diff_mus_swap [of "map mu_2 draws" "map mu_1 draws"] split: option.splits)
qed

text \<open>The samples \<open>[0]\<close> and \<open>[2, 4]\<close>, of pooled mean 2, with a sampler whose draw
  holds the sums of the two samples as the two means.\<close>

theorem pooled_mean_exact_and_swap_witness:
  "np_mean ([0] @ [2, 4]) = Some 2 \<and> np_mean ([2, 4] @ [0]) = Some 2
   \<and> prior_centres (build_model [0] [2, 4] 40) = [Some 2, Some 2]
   \<and> last (fst (bayes_ttest gen_flat sum_sampler quiet_plot (Some [[0], [2, 4]]) 40 True)) =
       Plot [0] [6] [- 6]
   \<and> last (fst (bayes_ttest gen_flat sum_sampler quiet_plot (Some [[2, 4], [0]]) 40 True)) =
       Plot [6] [0] [6]"
proof -
  have ab: "sum_sampler (build_model [0] [2, 4] 40) 40000 10000 2 =
      Inr [\<lparr>mu_1 = 0, mu_2 = 6, sigma_1 = 1, sigma_2 = 1, nu = 1\<rparr>]"
    by (simp add: sum_sampler_def evidence_def build_model_def Let_def)
  have ba: "sum_sampler (build_model [2, 4] [0] 40) 40000 10000 2 =
      Inr [\<lparr>mu_1 = 6, mu_2 = 0, sigma_1 = 1, sigma_2 = 1, nu = 1\<rparr>]"
    by (simp add: sum_sampler_def evidence_def build_model_def Let_def)
  show ?thesis
    using pooled_mean_exact_and_swap [of "[0]" "[2, 4]" 40 sum_sampler
        "[\<lparr>mu_1 = 0, mu_2 = 6, sigma_1 = 1, sigma_2 = 1, nu = 1\<rparr>]"
        "[\<lparr>mu_1 = 6, mu_2 = 0, sigma_1 = 1, sigma_2 = 1, nu = 1\<rparr>]" gen_flat quiet_plot]
    by (simp add: ab ba np_mean_def diff_mus_def)
qed

text \<open>The claim as the specification words it, one pooled mean for both orders,
  fails in doubles on \<open>A = [10\<^sup>1\<^sup>6, -10\<^sup>1\<^sup>6]\<close> and \<open>B = [1]\<close>. Pooled as \<open>A\<close> then \<open>B\<close> the
  sum is \<open>(10\<^sup>1\<^sup>6 - 10\<^sup>1\<^sup>6) + 1 = 1\<close> and the mean is the double nearest to a third; pooled
  as \<open>B\<close> then \<open>A\<close> the sum \<open>1 + 10\<^sup>1\<^sup>6\<close> rounds to \<open>10\<^sup>1\<^sup>6\<close>, so the sum and the mean are 0.
  In exact arithmetic both means are a third.\<close>

theorem float_mean_depends_on_order_counterexample:
  "np_mean64 ([10000000000000000, - 10000000000000000] @ [1]) =
     Some (6004799503160661 / 18014398509481984)
   \<and> np_mean64 ([1] @ [10000000000000000, - 10000000000000000]) = Some 0
   \<and> np_mean ([10000000000000000, - 10000000000000000] @ [1]) = Some (1 / 3)
   \<and> np_mean ([1] @ [10000000000000000, - 10000000000000000]) = Some (1 / 3)"
  by (simp add: np_mean64_def np_sum64_def np_mean_def
      pairwise_sum.simps [of "[10000000000000000, - 10000000000000000, 1]"]
      pairwise_sum.simps [of "[1, 10000000000000000, - 10000000000000000]"]
      add64_def fl64_0 fl64_1 fl64_1e16 fl64_1e16_plus_1 fl64_third)

section \<open>The derived traces\<close>

text \<open>
  C5. For the traces of any non-empty list of draws: the estimate of a group mean
  is the arithmetic mean of its trace; the difference trace, the effect-size trace
  and the normality trace have one entry per draw; at every draw the difference is
  \<open>mu_1 - mu_2\<close>, the effect size is \<open>(mu_1 - mu_2) / sqrt ((sigma_1\<^sup>2 + sigma_2\<^sup>2) / 2)\<close>
  and the normality is the natural logarithm of \<open>nu\<close> (not a finite float when \<open>nu\<close>
  is not positive).
\<close>

theorem derived_traces_elementwise:
  assumes "i < length draws"
  shows "np_mean (map mu_1 draws) = Some (sum_list (map mu_1 draws) / real (length draws))
     \<and> np_mean (map mu_2 draws) = Some (sum_list (map mu_2 draws) / real (length draws))
     \<and> length (diff_mus (map mu_1 draws) (map mu_2 draws)) = length draws
     \<and> diff_mus (map mu_1 draws) (map mu_2 draws) ! i = mu_1 (draws ! i) - mu_2 (draws ! i)
     \<and> length (effect_size (map mu_1 draws) (map mu_2 draws) (map sigma_1 draws)
          (map sigma_2 draws)) = length draws
     \<and> effect_size (map mu_1 draws) (map mu_2 draws) (map sigma_1 draws) (map sigma_2 draws) ! i =
         np_truediv (Some (mu_1 (draws ! i) - mu_2 (draws ! i)))
           (Some (sqrt (((sigma_1 (draws ! i))\<^sup>2 + (sigma_2 (draws ! i))\<^sup>2) / 2)))
     \<and> length (normality (map nu draws)) = length draws
     \<and> normality (map nu draws) ! i =
         (if 0 < nu (draws ! i) then Some (ln (nu (draws ! i))) else None)"
  using assms
  by (auto simp add: np_mean_def diff_mus_def effect_size_def effect_divisor_def normality_def
      np_log_def)

text \<open>The second of the two draws \<open>(3, 1, 1, 1, 1)\<close> and \<open>(5, 1, 2, 2, 1)\<close>.\<close>

theorem derived_traces_elementwise_witness:
  "np_mean (map mu_1
      [\<lparr>mu_1 = 3, mu_2 = 1, sigma_1 = 1, sigma_2 = 1, nu = 1\<rparr>,
       \<lparr>mu_1 = 5, mu_2 = 1, sigma_1 = 2, sigma_2 = 2, nu = 1\<rparr>]) = Some 4
   \<and> diff_mus [3, 5] [1, 1] ! 1 = 4
   \<and> effect_size [3, 5] [1, 1] [1, 2] [1, 2] ! 1 = Some 2
   \<and> normality [1, 1] ! 1 = Some 0"
  using derived_traces_elementwise [of 1
      "[\<lparr>mu_1 = 3, mu_2 = 1, sigma_1 = 1, sigma_2 = 1, nu = 1\<rparr>,
        \<lparr>mu_1 = 5, mu_2 = 1, sigma_1 = 2, sigma_2 = 2, nu = 1\<rparr>]"]
  by (simp add: np_truediv_def)

text \<open>
  C9, as the code has it. When every entry of both scale traces is strictly
  positive and its square is not zero in doubles (the square has not underflowed,
  which is so for every entry above \<open>1.6e-162\<close>), every entry of the divisor
  \<open>sqrt ((sigmas1\<^sup>2 + sigmas2\<^sup>2) / 2)\<close> that the code computes is strictly positive, a
  positive double or \<open>inf\<close>, and none is zero: the division of line 73 does not divide
  by zero.
\<close>

theorem effect_divisor_float_positive:
  assumes "\<forall>s \<in> set sigmas1. 0 < s \<and> square64 s \<noteq> Some 0"
    and "\<forall>s \<in> set sigmas2. 0 < s \<and> square64 s \<noteq> Some 0"
  shows "(\<forall>d \<in> set (effect_divisor64 sigmas1 sigmas2).
            case d of None \<Rightarrow> True | Some y \<Rightarrow> 0 < y)
     \<and> Some 0 \<notin> set (effect_divisor64 sigmas1 sigmas2)
     \<and> length (effect_divisor64 sigmas1 sigmas2) = min (length sigmas1) (length sigmas2)"
proof -
  have pos: "0 < y" if "Some y \<in> set (effect_divisor64 sigmas1 sigmas2)" for y
  proof -
    from that obtain a b where ab: "a \<in> set sigmas1" "b \<in> set sigmas2"
      and y: "sqrt64 (half64 (add64 (square64 a) (square64 b))) = Some y"
      using effect_divisor64_elem by metis
    from ab assms have "square64 a \<noteq> Some 0" "square64 b \<noteq> Some 0" by auto
    with y obtain p q where pq: "square64 a = Some p" "2 powr (- 1074) \<le> p"
        "square64 b = Some q" "2 powr (- 1074) \<le> q"
      using square64_cases [of a] square64_cases [of b]
      by (auto simp add: add64_def half64_def sqrt64_def)
    with y have "2 powr (- 537) \<le> y" by (intro divisor64_entry [of p q]) simp_all
    then show ?thesis by (rule powr_le_pos)
  qed
  then have "case d of None \<Rightarrow> True | Some y \<Rightarrow> 0 < y"
    if "d \<in> set (effect_divisor64 sigmas1 sigmas2)" for d
    using that by (cases d) simp_all
  moreover from pos have "Some 0 \<notin> set (effect_divisor64 sigmas1 sigmas2)" by fastforce
  moreover have "length (effect_divisor64 sigmas1 sigmas2) =
      min (length sigmas1) (length sigmas2)"
    by (simp add: effect_divisor64_def)
  ultimately show ?thesis by blast
qed

text \<open>The scale traces \<open>[1, 3]\<close> and \<open>[1, 3]\<close>: the squares are 1 and 9, the divisor is
  \<open>[1, 3]\<close>.\<close>

theorem effect_divisor_float_positive_witness:
  "effect_divisor64 [1, 3] [1, 3] = [Some 1, Some 3]
   \<and> Some 0 \<notin> set (effect_divisor64 [1, 3] [1, 3])"
proof -
  have sq: "square64 1 = Some 1" "square64 3 = Some 9"
    by (simp_all add: square64_def fl64_1 fl64_numeral)
  have "\<forall>s \<in> set [1, 3 :: real]. 0 < s \<and> square64 s \<noteq> Some 0"
    by (simp add: sq)
  from effect_divisor_float_positive [OF this this] show ?thesis
    by (simp add: effect_divisor64_def sq add64_def half64_def sqrt64_def fl64_1 fl64_numeral)
qed

text \<open>The claim as the specification words it, a positive divisor for all strictly
  positive scales, fails in doubles on the scale \<open>1e-200\<close> in both traces: the scale is
  strictly positive, its square \<open>1e-400\<close> is below half of the smallest subnormal
  number and rounds to zero, and so do the sum, its half and the root. The code then
  divides by zero. In exact arithmetic the same divisor is \<open>1e-200\<close>.\<close>

theorem squares_underflow_counterexample:
  "0 < (1 / 10 ^ 200 :: real)
   \<and> effect_divisor64 [1 / 10 ^ 200] [1 / 10 ^ 200] = [Some 0]
   \<and> effect_divisor [1 / 10 ^ 200] [1 / 10 ^ 200] = [1 / 10 ^ 200]"
proof -
  have entry: "effect_divisor64 [s] [s] = [sqrt64 (half64 (add64 (square64 s) (square64 s)))]"
    for s by (simp add: effect_divisor64_def)
  have "sqrt64 (half64 (add64 (Some 0) (Some 0))) = Some 0"
    by (simp add: add64_def half64_def sqrt64_def fl64_0)
  then have "effect_divisor64 [1 / 10 ^ 200] [1 / 10 ^ 200] = [Some 0]"
    by (simp only: entry square64_tiny)
  moreover have "effect_divisor [s] [s] = [\<bar>s\<bar>]" for s
    by (simp add: effect_divisor_def)
  ultimately show ?thesis by simp
qed

section \<open>The sampling run\<close>



end
